theory Spec2Isabelle
  imports Main "HOL-Library.AList"
begin

section \<open>Python values used by \<^verbatim>\<open>Utils/pubmed.py\<close>\<close>

text \<open>
  Strings are lists of characters (those with a code below 256).  An attribute or a node text that Python holds as
  \<^verbatim>\<open>None\<close> is \<open>None\<close> of an option type.  Exceptions are values of \<open>exn\<close>; a function
  that can raise returns \<open>exn + 'a\<close> with \<open>Inl\<close> for the raised exception.
\<close>

datatype exn =
    RequestException string
  | AttributeError string
  | TypeError string
  | OSError string
  | KeyError string
  | OverflowError string
  | JSONDecodeError string
  | TarError string

text \<open>\<^verbatim>\<open>str(e)\<close>, the text that an f-string prints for an exception.\<close>

fun exn_str :: "exn \<Rightarrow> string" where
  "exn_str (RequestException m) = m"
| "exn_str (AttributeError m) = m"
| "exn_str (TypeError m) = m"
| "exn_str (OSError m) = m"
| "exn_str (KeyError m) = m"
| "exn_str (OverflowError m) = m"
| "exn_str (JSONDecodeError m) = m"
| "exn_str (TarError m) = m"

text \<open>What an f-string prints for a value that is a string or \<^verbatim>\<open>None\<close>.\<close>

definition py_str :: "string option \<Rightarrow> string" where
  "py_str x = (case x of None \<Rightarrow> ''None'' | Some s \<Rightarrow> s)"

text \<open>\<^verbatim>\<open>s.startswith(p)\<close>.\<close>

definition startswith :: "string \<Rightarrow> string \<Rightarrow> bool" where
  "startswith s p = (take (length p) s = p)"

text \<open>\<^verbatim>\<open>s.endswith(p)\<close>.\<close>

definition endswith :: "string \<Rightarrow> string \<Rightarrow> bool" where
  "endswith s p = (length p \<le> length s \<and> drop (length s - length p) s = p)"

text \<open>
  \<^verbatim>\<open>str.isspace\<close> on one character, for the characters below U+0100: tab, line feed,
  vertical tab, form feed, carriage return, the four separators U+001C..U+001F, space,
  next line (U+0085) and no-break space (U+00A0).
\<close>

definition isspace :: "char \<Rightarrow> bool" where
  "isspace c = (of_char c \<in> {9, 10, 11, 12, 13, 28, 29, 30, 31, 32, 133, 160 :: nat})"

text \<open>\<^verbatim>\<open>s.strip()\<close>: whitespace removed at both ends.\<close>

definition strip :: "string \<Rightarrow> string" where
  "strip s = rev (dropWhile isspace (rev (dropWhile isspace s)))"

section \<open>The element tree of \<^verbatim>\<open>xml.etree.ElementTree\<close>\<close>

text \<open>
  An element has a tag, a dictionary of attributes, the text before its first child
  (\<^verbatim>\<open>None\<close> when there is none), its children in document order, and the text that
  follows its end tag (\<^verbatim>\<open>tail\<close>).
\<close>

datatype element =
  Element (el_tag: string) (el_attrib: "(string \<times> string) list")
          (el_text: "string option") (el_children: "element list")
          (el_tail: "string option")

text \<open>\<^verbatim>\<open>elem.get(key)\<close> and \<^verbatim>\<open>elem.get(key, default)\<close>.\<close>

definition el_get :: "element \<Rightarrow> string \<Rightarrow> string option" where
  "el_get e k = map_of (el_attrib e) k"

definition el_get_default :: "element \<Rightarrow> string \<Rightarrow> string \<Rightarrow> string" where
  "el_get_default e k d = (case el_get e k of None \<Rightarrow> d | Some v \<Rightarrow> v)"

text \<open>\<^verbatim>\<open>elem.iter()\<close>: the element itself and all its descendants, in document order.\<close>

fun iter :: "element \<Rightarrow> element list" where
  "iter (Element t a x cs tail) = Element t a x cs tail # concat (map iter cs)"

text \<open>
  The path \<^verbatim>\<open>.//tag\<close> selects the descendants with that tag, in document order; the
  element the search starts from is not among them.
\<close>

definition descendants :: "element \<Rightarrow> element list" where
  "descendants e = concat (map iter (el_children e))"

definition findall_desc :: "string \<Rightarrow> element \<Rightarrow> element list" where
  "findall_desc t e = filter (\<lambda>x. el_tag x = t) (descendants e)"

definition first_opt :: "'a list \<Rightarrow> 'a option" where
  "first_opt xs = (case xs of [] \<Rightarrow> None | x # _ \<Rightarrow> Some x)"

definition find_desc :: "string \<Rightarrow> element \<Rightarrow> element option" where
  "find_desc t e = first_opt (findall_desc t e)"

text \<open>The path \<^verbatim>\<open>.//tag[@key='value']\<close>.\<close>

definition findall_desc_attr :: "string \<Rightarrow> string \<Rightarrow> string \<Rightarrow> element \<Rightarrow> element list" where
  "findall_desc_attr t k v e = filter (\<lambda>x. el_get x k = Some v) (findall_desc t e)"

definition find_desc_attr :: "string \<Rightarrow> string \<Rightarrow> string \<Rightarrow> element \<Rightarrow> element option" where
  "find_desc_attr t k v e = first_opt (findall_desc_attr t k v e)"

text \<open>The path \<^verbatim>\<open>tag\<close>: the first child with that tag.\<close>

definition find_child :: "string \<Rightarrow> element \<Rightarrow> element option" where
  "find_child t e = first_opt (filter (\<lambda>x. el_tag x = t) (el_children e))"

text \<open>
  \<^verbatim>\<open>elem.itertext()\<close>: the element's text if it is a non-empty string, then for every
  child its own \<^verbatim>\<open>itertext()\<close> followed by its tail if that is a non-empty string.
\<close>

definition nonempty :: "string option \<Rightarrow> string list" where
  "nonempty x = (case x of None \<Rightarrow> [] | Some s \<Rightarrow> if s = [] then [] else [s])"

fun itertext :: "element \<Rightarrow> string list" where
  "itertext (Element t a x cs tail) =
     nonempty x @ concat (map (\<lambda>c. itertext c @ nonempty (el_tail c)) cs)"

text \<open>\<^verbatim>\<open>"".join(elem.itertext())\<close>.\<close>

definition joined_text :: "element \<Rightarrow> string" where
  "joined_text e = concat (itertext e)"

text \<open>
  The truth value of an element is \<^verbatim>\<open>len(elem) != 0\<close>: an element without children is
  false.  \<^verbatim>\<open>a or b\<close> is \<open>a\<close> when \<open>a\<close> is true and \<open>b\<close> otherwise; \<^verbatim>\<open>None\<close> is
  false.
\<close>

definition truthy :: "element option \<Rightarrow> bool" where
  "truthy x = (case x of None \<Rightarrow> False | Some e \<Rightarrow> el_children e \<noteq> [])"

definition py_or :: "element option \<Rightarrow> element option \<Rightarrow> element option" where
  "py_or a b = (if truthy a then a else b)"

section \<open>\<^verbatim>\<open>get_pmc_metadata\<close>\<close>

text \<open>
  One entry of the returned list: the dictionary with the keys \<^verbatim>\<open>pmcid\<close>, \<^verbatim>\<open>title\<close>,
  \<^verbatim>\<open>journal\<close>, \<^verbatim>\<open>pub_date\<close>, \<^verbatim>\<open>authors\<close>, \<^verbatim>\<open>pub_type\<close>, \<^verbatim>\<open>abstract\<close>,
  \<^verbatim>\<open>mesh_terms\<close> and \<^verbatim>\<open>references\<close>.  A journal name or an author can be \<^verbatim>\<open>None\<close>
  (the \<^verbatim>\<open>text\<close> of a node without text).
\<close>

record article =
  art_pmcid :: string
  art_title :: string
  art_journal :: "string option"
  art_pub_date :: string
  art_authors :: "string option list"
  art_pub_type :: string
  art_abstract :: string
  art_mesh_terms :: "string list"
  art_references :: "string list"

definition get_title :: "element \<Rightarrow> string" where
  "get_title meta =
     (case find_desc ''article-title'' meta of
        Some title_node \<Rightarrow> joined_text title_node
      | None \<Rightarrow> ''No Title'')"

text \<open>
  \<^verbatim>\<open>pmcid_text.startswith("PMC")\<close> raises \<^verbatim>\<open>AttributeError\<close> when the node has no
  text.
\<close>

definition get_pmcid :: "element \<Rightarrow> exn + string" where
  "get_pmcid meta =
     (case find_desc_attr ''article-id'' ''pub-id-type'' ''pmcid'' meta of
        Some pmcid_node \<Rightarrow>
          (case el_text pmcid_node of
             None \<Rightarrow> Inl (AttributeError ''startswith'')
           | Some pmcid_text \<Rightarrow>
               if startswith pmcid_text ''PMC'' then Inr pmcid_text
               else Inr (''PMC'' @ pmcid_text))
      | None \<Rightarrow> Inr ''Unknown'')"

definition get_abstract :: "element \<Rightarrow> string" where
  "get_abstract meta =
     (case find_desc ''abstract'' meta of
        Some abstract_node \<Rightarrow> strip (joined_text abstract_node)
      | None \<Rightarrow> ''No Abstract'')"

fun get_keywords :: "element list \<Rightarrow> string list \<Rightarrow> string list" where
  "get_keywords [] keywords = keywords"
| "get_keywords (kw # kws) keywords =
     (case el_text kw of
        Some s \<Rightarrow> if s \<noteq> [] then get_keywords kws (keywords @ [s]) else get_keywords kws keywords
      | None \<Rightarrow> get_keywords kws keywords)"

definition get_citation :: "element \<Rightarrow> element option" where
  "get_citation ref =
     py_or (py_or (find_desc ''mixed-citation'' ref) (find_desc ''citation'' ref))
           (find_desc ''element-citation'' ref)"

fun get_refs :: "element list \<Rightarrow> string list \<Rightarrow> string list" where
  "get_refs [] refs = refs"
| "get_refs (ref # ref_list) refs =
     (case get_citation ref of
        Some citation \<Rightarrow> get_refs ref_list (refs @ [strip (joined_text citation)])
      | None \<Rightarrow> get_refs ref_list refs)"

definition get_journal :: "element \<Rightarrow> string option" where
  "get_journal article =
     (case find_desc ''journal-title'' article of
        Some journal_node \<Rightarrow> el_text journal_node
      | None \<Rightarrow> Some ''Unknown Journal'')"

definition get_pub_date :: "element \<Rightarrow> string" where
  "get_pub_date article =
     (case find_desc ''pub-date'' article of
        Some pub_date_node \<Rightarrow>
          (let year = find_child ''year'' pub_date_node;
               month = find_child ''month'' pub_date_node;
               day = find_child ''day'' pub_date_node
           in (case year of Some y \<Rightarrow> py_str (el_text y) | None \<Rightarrow> '''') @ ''-'' @
              (case month of Some m \<Rightarrow> py_str (el_text m) | None \<Rightarrow> ''01'') @ ''-'' @
              (case day of Some d \<Rightarrow> py_str (el_text d) | None \<Rightarrow> ''01''))
      | None \<Rightarrow> ''Unknown Date'')"

fun get_authors :: "element list \<Rightarrow> string option list \<Rightarrow> string option list" where
  "get_authors [] authors = authors"
| "get_authors (contrib # contribs) authors =
     (case find_desc ''surname'' contrib of
        Some surname \<Rightarrow>
          (case find_desc ''given-names'' contrib of
             Some given_names \<Rightarrow>
               get_authors contribs
                 (authors @ [Some (py_str (el_text surname) @ '', '' @ py_str (el_text given_names))])
           | None \<Rightarrow> get_authors contribs (authors @ [el_text surname]))
      | None \<Rightarrow> get_authors contribs authors)"

text \<open>
  The body of the loop over the article nodes: \<open>None\<close> is the \<^verbatim>\<open>continue\<close> taken when
  there is no \<^verbatim>\<open>article-meta\<close>, \<open>Some (Inl e)\<close> an exception, \<open>Some (Inr r)\<close> the
  record that is appended.
\<close>

definition parse_article :: "element \<Rightarrow> (exn + article) option" where
  "parse_article a =
     (case find_desc ''article-meta'' a of
        None \<Rightarrow> None
      | Some meta \<Rightarrow>
          Some (case get_pmcid meta of
                  Inl e \<Rightarrow> Inl e
                | Inr p \<Rightarrow>
                    Inr \<lparr> art_pmcid = p,
                          art_title = get_title meta,
                          art_journal = get_journal a,
                          art_pub_date = get_pub_date a,
                          art_authors = get_authors
                            (findall_desc_attr ''contrib'' ''contrib-type'' ''author'' meta) [],
                          art_pub_type = el_get_default a ''article-type'' ''Unknown'',
                          art_abstract = get_abstract meta,
                          art_mesh_terms = get_keywords (findall_desc ''kwd'' meta) [],
                          art_references = get_refs (findall_desc ''ref'' a) [] \<rparr>))"

fun parse_articles :: "element list \<Rightarrow> article list \<Rightarrow> exn + article list" where
  "parse_articles [] articles = Inr articles"
| "parse_articles (a # rest) articles =
     (case parse_article a of
        None \<Rightarrow> parse_articles rest articles
      | Some (Inl e) \<Rightarrow> Inl e
      | Some (Inr r) \<Rightarrow> parse_articles rest (articles @ [r]))"

text \<open>
  The answer to an HTTP request: \<open>Failed msg\<close> when \<^verbatim>\<open>requests.get\<close> or
  \<^verbatim>\<open>raise_for_status\<close> raises a \<^verbatim>\<open>RequestException\<close>, \<open>Body b\<close> otherwise.  For the
  XML services the body is given as the result of \<^verbatim>\<open>ET.fromstring\<close>: \<open>None\<close> for a
  \<^verbatim>\<open>ParseError\<close>, the root element otherwise.
\<close>

datatype 'a http = Failed string | Body 'a

text \<open>The result is the printed lines and the value returned or the exception raised.\<close>

definition get_pmc_metadata ::
  "string list \<Rightarrow> element option http \<Rightarrow> string list \<times> (exn + article list)" where
  "get_pmc_metadata id_list response =
     (if id_list = [] then ([], Inr [])
      else case response of
        Failed msg \<Rightarrow> ([], Inl (RequestException msg))
      | Body None \<Rightarrow> ([''Failed to parse XML response''], Inr [])
      | Body (Some root) \<Rightarrow> ([], parse_articles (findall_desc ''article'' root) []))"

section \<open>Dates of the \<^verbatim>\<open>datetime\<close> module\<close>

text \<open>
  The date part of a \<^verbatim>\<open>datetime\<close>; the time of day plays no part in a subtraction of
  whole days nor in the format \<^verbatim>\<open>%Y/%m/%d\<close>.  The functions below are those of the
  module: \<^verbatim>\<open>_is_leap\<close>, \<^verbatim>\<open>_days_before_year\<close>, \<^verbatim>\<open>_days_before_month\<close>, \<^verbatim>\<open>_ymd2ord\<close>,
  \<^verbatim>\<open>_ord2ymd\<close>.  Subtracting a \<^verbatim>\<open>timedelta\<close> of whole days goes through the ordinal of
  the date and raises \<^verbatim>\<open>OverflowError\<close> outside the years 1 to 9999.
\<close>

record datetime =
  dt_year :: int
  dt_month :: int
  dt_day :: int

definition DAYS_IN_MONTH :: "int list" where
  "DAYS_IN_MONTH = [-1, 31, 28, 31, 30, 31, 30, 31, 31, 30, 31, 30, 31]"

definition DAYS_BEFORE_MONTH :: "int list" where
  "DAYS_BEFORE_MONTH = [-1, 0, 31, 59, 90, 120, 151, 181, 212, 243, 273, 304, 334]"

definition is_leap :: "int \<Rightarrow> bool" where
  "is_leap year = (year mod 4 = 0 \<and> (year mod 100 \<noteq> 0 \<or> year mod 400 = 0))"

definition days_before_year :: "int \<Rightarrow> int" where
  "days_before_year year =
     (let y = year - 1 in y * 365 + y div 4 - y div 100 + y div 400)"

definition days_before_month :: "int \<Rightarrow> int \<Rightarrow> int" where
  "days_before_month year month =
     DAYS_BEFORE_MONTH ! nat month + (if month > 2 \<and> is_leap year then 1 else 0)"

definition ymd2ord :: "int \<Rightarrow> int \<Rightarrow> int \<Rightarrow> int" where
  "ymd2ord year month day = days_before_year year + days_before_month year month + day"

definition ord2ymd :: "int \<Rightarrow> datetime" where
  "ord2ymd n0 =
     (let n = n0 - 1;
          n400 = n div 146097; n = n mod 146097;
          year = n400 * 400 + 1;
          n100 = n div 36524; n = n mod 36524;
          n4 = n div 1461; n = n mod 1461;
          n1 = n div 365; n = n mod 365;
          year = year + n100 * 100 + n4 * 4 + n1
      in if n1 = 4 \<or> n100 = 4 then \<lparr>dt_year = year - 1, dt_month = 12, dt_day = 31\<rparr>
         else
           let leapyear = (n1 = 3 \<and> (n4 \<noteq> 24 \<or> n100 = 3));
               month = (n + 50) div 32;
               preceding = DAYS_BEFORE_MONTH ! nat month
                             + (if month > 2 \<and> leapyear then 1 else 0)
           in if preceding > n
              then let month' = month - 1;
                       preceding' = preceding -
                         (DAYS_IN_MONTH ! nat month'
                            + (if month' = 2 \<and> leapyear then 1 else 0))
                   in \<lparr>dt_year = year, dt_month = month', dt_day = n - preceding' + 1\<rparr>
              else \<lparr>dt_year = year, dt_month = month, dt_day = n - preceding + 1\<rparr>)"

definition toordinal :: "datetime \<Rightarrow> int" where
  "toordinal d = ymd2ord (dt_year d) (dt_month d) (dt_day d)"

definition MAXORDINAL :: int where
  "MAXORDINAL = 3652059"

definition sub_days :: "datetime \<Rightarrow> int \<Rightarrow> exn + datetime" where
  "sub_days d days =
     (let delta = toordinal d - days
      in if 0 < delta \<and> delta \<le> MAXORDINAL then Inr (ord2ymd delta)
         else Inl (OverflowError ''date value out of range''))"

text \<open>
  \<^verbatim>\<open>strftime("%Y/%m/%d")\<close>: four digits for the year (as for every year from 1000 on),
  two for the month and two for the day.
\<close>

definition digit :: "int \<Rightarrow> char" where
  "digit k = char_of (48 + nat k)"

definition strftime_ymd :: "datetime \<Rightarrow> string" where
  "strftime_ymd d =
     (let y = dt_year d; m = dt_month d; dd = dt_day d
      in [digit (y div 1000 mod 10), digit (y div 100 mod 10), digit (y div 10 mod 10),
          digit (y mod 10), CHR ''/'', digit (m div 10 mod 10), digit (m mod 10), CHR ''/'',
          digit (dd div 10 mod 10), digit (dd mod 10)])"

section \<open>\<^verbatim>\<open>search_pmc\<close>\<close>

text \<open>The value that \<^verbatim>\<open>response.json()\<close> returns.  The functions never inspect a number.\<close>

datatype json =
    JNull
  | JBool bool
  | JNum int
  | JStr string
  | JList "json list"
  | JDict "(string \<times> json) list"

text \<open>
  \<^verbatim>\<open>value[key]\<close> for a string key: a dictionary raises \<^verbatim>\<open>KeyError\<close> when the key is
  missing; any other value raises \<^verbatim>\<open>TypeError\<close>.
\<close>

fun subscript :: "json \<Rightarrow> string \<Rightarrow> exn + json" where
  "subscript (JDict d) k = (case map_of d k of None \<Rightarrow> Inl (KeyError k) | Some v \<Rightarrow> Inr v)"
| "subscript _ k = Inl (TypeError ''subscript'')"

text \<open>The parameters that \<^verbatim>\<open>requests.get(url, params=params)\<close> is given.\<close>

record esearch_params =
  p_db :: string
  p_term :: string
  p_retmode :: string
  p_retmax :: int
  p_datetype :: string
  p_mindate :: "string option"
  p_maxdate :: "string option"

definition BASE_URL :: string where
  "BASE_URL = ''https://eutils.ncbi.nlm.nih.gov/entrez/eutils/''"

text \<open>
  The first part of \<^verbatim>\<open>search_pmc\<close>: the effective dates, from the arguments and
  \<^verbatim>\<open>datetime.now()\<close>.
\<close>

definition effective_dates ::
  "datetime \<Rightarrow> string option \<Rightarrow> string option \<Rightarrow> exn + string option \<times> string option" where
  "effective_dates now mindate maxdate =
     (if mindate = None \<and> maxdate = None then
        (let end_date = now in
         case sub_days end_date 15 of
           Inl e \<Rightarrow> Inl e
         | Inr start_date \<Rightarrow> Inr (Some (strftime_ymd start_date), Some (strftime_ymd end_date)))
      else Inr (mindate, maxdate))"

definition search_params ::
  "string \<Rightarrow> int \<Rightarrow> string option \<Rightarrow> string option \<Rightarrow> esearch_params" where
  "search_params term max_results mindate maxdate =
     \<lparr> p_db = ''pmc'', p_term = term, p_retmode = ''json'', p_retmax = max_results,
       p_datetype = ''pdat'', p_mindate = mindate, p_maxdate = maxdate \<rparr>"

text \<open>
  The last part of \<^verbatim>\<open>search_pmc\<close>: the \<^verbatim>\<open>try\<close> block on the decoded body.  Only
  \<^verbatim>\<open>KeyError\<close> is caught.  The result is the printed lines and the value returned or
  the exception raised.
\<close>

definition extract_ids ::
  "json \<Rightarrow> string option \<Rightarrow> string option \<Rightarrow> string list \<times> (exn + json)" where
  "extract_ids data mindate maxdate =
     (case subscript data ''esearchresult'' of
        Inl (KeyError k) \<Rightarrow> ([], Inr (JList []))
      | Inl e \<Rightarrow> ([], Inl e)
      | Inr esearchresult \<Rightarrow>
          (case subscript esearchresult ''idlist'' of
             Inl (KeyError k) \<Rightarrow> ([], Inr (JList []))
           | Inl e \<Rightarrow> ([], Inl e)
           | Inr id_list \<Rightarrow>
               ([''Searching from '' @ py_str mindate @ '' to '' @ py_str maxdate @ ''...''],
                Inr id_list)))"

text \<open>
  The result of a call: the requests issued (at most one), the printed lines, and the
  value returned or the exception raised.  \<open>get\<close> is the service: it answers a request
  with a failure or with a body, \<open>None\<close> when the body is not JSON.
\<close>

record search_result =
  requests :: "(string \<times> esearch_params) list"
  printed :: "string list"
  returned :: "exn + json"

definition search_pmc ::
  "(string \<times> esearch_params \<Rightarrow> json option http) \<Rightarrow> datetime \<Rightarrow>
   string \<Rightarrow> int \<Rightarrow> string option \<Rightarrow> string option \<Rightarrow> search_result" where
  "search_pmc get now term max_results mindate maxdate =
     (case effective_dates now mindate maxdate of
        Inl e \<Rightarrow> \<lparr> requests = [], printed = [], returned = Inl e \<rparr>
      | Inr (mindate', maxdate') \<Rightarrow>
          (let req = (BASE_URL @ ''esearch.fcgi'',
                      search_params term max_results mindate' maxdate')
           in case get req of
                Failed msg \<Rightarrow>
                  \<lparr> requests = [req], printed = [], returned = Inl (RequestException msg) \<rparr>
              | Body None \<Rightarrow>
                  \<lparr> requests = [req], printed = [],
                    returned = Inl (JSONDecodeError ''json'') \<rparr>
              | Body (Some data) \<Rightarrow>
                  (case extract_ids data mindate' maxdate' of
                     (lines, res) \<Rightarrow>
                       \<lparr> requests = [req], printed = lines, returned = res \<rparr>)))"

section \<open>\<^verbatim>\<open>download_article_files\<close>\<close>

subsection \<open>Strings and paths\<close>

text \<open>
  \<^verbatim>\<open>str.lower\<close> and \<^verbatim>\<open>str.upper\<close> on the letters A to Z and a to z.  No other
  character has an ASCII letter as its lower case, so the tests of a lowered name against
  \<^verbatim>\<open>.pdf\<close>, \<^verbatim>\<open>.nxml\<close> and \<^verbatim>\<open>.xml\<close> do not depend on the other characters.
\<close>

definition lower_char :: "char \<Rightarrow> char" where
  "lower_char c = (let n = of_char c :: nat in if 65 \<le> n \<and> n \<le> 90 then char_of (n + 32) else c)"

definition upper_char :: "char \<Rightarrow> char" where
  "upper_char c = (let n = of_char c :: nat in if 97 \<le> n \<and> n \<le> 122 then char_of (n - 32) else c)"

definition lower :: "string \<Rightarrow> string" where
  "lower s = map lower_char s"

definition upper :: "string \<Rightarrow> string" where
  "upper s = map upper_char s"

text \<open>
  \<^verbatim>\<open>s.replace(old, new)\<close> for a non-empty \<open>old\<close>: every occurrence, from the left,
  without overlap.
\<close>

function replace :: "string \<Rightarrow> string \<Rightarrow> string \<Rightarrow> string" where
  "replace old new s =
     (if s = [] \<or> old = [] then s
      else if startswith s old then new @ replace old new (drop (length old) s)
      else hd s # replace old new (tl s))"
  by pat_completeness auto
termination
  by (relation "measure (\<lambda>(old, new, s). length s)") auto

declare replace.simps [simp del]

text \<open>\<^verbatim>\<open>os.path.basename\<close>: what follows the last slash.\<close>

definition basename :: "string \<Rightarrow> string" where
  "basename p = rev (takeWhile (\<lambda>c. c \<noteq> CHR ''/'') (rev p))"

text \<open>\<^verbatim>\<open>os.path.join\<close> of two components.\<close>

definition path_join :: "string \<Rightarrow> string \<Rightarrow> string" where
  "path_join a b =
     (if startswith b ''/'' then b
      else if a = [] \<or> endswith a ''/'' then a @ b
      else a @ ''/'' @ b)"

subsection \<open>The file system\<close>

text \<open>
  A directory is the list of its entries, in the order in which \<^verbatim>\<open>os.scandir\<close> lists
  them; an entry is a file with its content or a directory.  The function works in one
  directory, \<^verbatim>\<open>article_dir\<close>; a path below it is the list of the directory names that
  lead to the file and the name of the file.  The identifier and the names are single
  path components (no slash), and names are the same only when they are equal as strings
  (a file system that distinguishes upper and lower case; no symbolic links).
\<close>

type_synonym bytes = string

datatype fsnode = File bytes | Dir "(string \<times> fsnode) list"

type_synonym entries = "(string \<times> fsnode) list"

text \<open>\<^verbatim>\<open>os.path.exists\<close> of a name in the directory.\<close>

definition exists_top :: "entries \<Rightarrow> string \<Rightarrow> bool" where
  "exists_top es name = (map_of es name \<noteq> None)"

text \<open>
  \<^verbatim>\<open>os.makedirs(article_dir, exist_ok=True)\<close>, from what is at the path: a missing
  directory is created empty, an existing one is kept, a file there raises.
\<close>

definition makedirs :: "fsnode option \<Rightarrow> exn + entries" where
  "makedirs node =
     (case node of
        None \<Rightarrow> Inr []
      | Some (Dir es) \<Rightarrow> Inr es
      | Some (File c) \<Rightarrow> Inl (OSError ''File exists''))"

text \<open>\<^verbatim>\<open>open(path, 'wb')\<close>: the file is created or emptied; a directory cannot be opened.\<close>

definition open_wb :: "string \<Rightarrow> entries \<Rightarrow> exn + entries" where
  "open_wb name es =
     (if name = [] \<or> name = ''.'' \<or> name = ''..'' then Inl (OSError ''Is a directory'')
      else case map_of es name of
             Some (Dir sub) \<Rightarrow> Inl (OSError ''Is a directory'')
           | _ \<Rightarrow> Inr (AList.update name (File []) es))"

text \<open>\<^verbatim>\<open>f.write(chunk)\<close> on the file opened under that name.\<close>

definition write_chunk :: "string \<Rightarrow> bytes \<Rightarrow> entries \<Rightarrow> entries" where
  "write_chunk name chunk es =
     (case map_of es name of
        Some (File c) \<Rightarrow> AList.update name (File (c @ chunk)) es
      | _ \<Rightarrow> es)"

text \<open>\<^verbatim>\<open>os.remove\<close> of a name in the directory.\<close>

definition os_remove :: "string \<Rightarrow> entries \<Rightarrow> exn + entries" where
  "os_remove name es =
     (case map_of es name of
        Some (File c) \<Rightarrow> Inr (AList.delete name es)
      | _ \<Rightarrow> Inl (OSError ''No such file''))"

text \<open>The entry at a path below the directory.\<close>

fun lookup :: "entries \<Rightarrow> string list \<Rightarrow> string \<Rightarrow> fsnode option" where
  "lookup es [] name = map_of es name"
| "lookup es (d # ds) name =
     (case map_of es d of Some (Dir sub) \<Rightarrow> lookup sub ds name | _ \<Rightarrow> None)"

fun remove_at :: "entries \<Rightarrow> string list \<Rightarrow> string \<Rightarrow> entries" where
  "remove_at es [] name = AList.delete name es"
| "remove_at es (d # ds) name =
     (case map_of es d of
        Some (Dir sub) \<Rightarrow> AList.update d (Dir (remove_at sub ds name)) es
      | _ \<Rightarrow> es)"

text \<open>
  \<^verbatim>\<open>os.rename(old_path, new_path)\<close> where the old path is below the directory and the new
  one is a name in the directory itself.
\<close>

definition os_rename :: "entries \<Rightarrow> string list \<Rightarrow> string \<Rightarrow> string \<Rightarrow> exn + entries" where
  "os_rename es root_path file new_name =
     (case lookup es root_path file of
        None \<Rightarrow> Inl (OSError ''No such file or directory'')
      | Some node \<Rightarrow> Inr (AList.update new_name node (remove_at es root_path file)))"

text \<open>
  \<^verbatim>\<open>os.walk(article_dir)\<close>, top down: for every directory its path and the names of its
  files, then its subdirectories in turn.  (The list of directory names that
  \<^verbatim>\<open>os.walk\<close> also yields is not used by the loop.)
\<close>

definition file_names :: "entries \<Rightarrow> string list" where
  "file_names es = map fst (filter (\<lambda>e. case snd e of File c \<Rightarrow> True | Dir sub \<Rightarrow> False) es)"

fun walk :: "string list \<Rightarrow> entries \<Rightarrow> (string list \<times> string list) list" where
  "walk root_path es =
     (root_path, file_names es) #
     concat (map (\<lambda>e. case snd e of
                         File c \<Rightarrow> []
                       | Dir sub \<Rightarrow> walk (root_path @ [fst e]) sub) es)"

declare walk.simps [simp del]

subsection \<open>The services\<close>

text \<open>
  A streamed download: \<open>GetFailed msg\<close> when \<^verbatim>\<open>requests.get\<close> or
  \<^verbatim>\<open>raise_for_status\<close> raises, before any file is opened; \<open>Stream chunks err\<close> when the
  body arrives in these chunks and then ends (\<open>err = None\<close>) or breaks with an exception.
\<close>

datatype download = GetFailed string | Stream "bytes list" "string option"

text \<open>
  \<^verbatim>\<open>tarfile.open(tgz_path, "r:gz")\<close> followed by \<^verbatim>\<open>extractall(path=article_dir)\<close>: the
  directory afterwards, and whether a \<^verbatim>\<open>tarfile.TarError\<close> or another exception ended
  the extraction.
\<close>

datatype untar_result =
    Extracted entries
  | TarFailed string entries
  | ExtractFailed exn entries

record env =
  oa_get :: "string \<Rightarrow> element option http"
  http_get :: "string \<Rightarrow> download"
  untar :: "string \<Rightarrow> entries \<Rightarrow> untar_result"

text \<open>
  The state that the function changes: what is at each directory path (here only the path
  of \<^verbatim>\<open>article_dir\<close> is read and written) and the printed lines.
\<close>

record world =
  fs :: "string \<Rightarrow> fsnode option"
  out :: "string list"

text \<open>The local state after \<^verbatim>\<open>os.makedirs\<close>: the directory, the stdout, the flag.\<close>

record dstate =
  entries :: entries
  stdout :: "string list"
  downloaded_something :: bool

definition print :: "string \<Rightarrow> dstate \<Rightarrow> dstate" where
  "print line st = st\<lparr>stdout := stdout st @ [line]\<rparr>"

subsection \<open>The steps\<close>

text \<open>
  The \<^verbatim>\<open>with requests.get(href, stream=True)\<close> block: the directory afterwards and the
  exception that left the block, if any.  A stream that breaks leaves the file with the
  chunks written so far.
\<close>

definition fetch_to_file :: "download \<Rightarrow> string \<Rightarrow> entries \<Rightarrow> entries \<times> exn option" where
  "fetch_to_file d name es =
     (case d of
        GetFailed msg \<Rightarrow> (es, Some (RequestException msg))
      | Stream chunks err \<Rightarrow>
          (case open_wb name es of
             Inl e \<Rightarrow> (es, Some e)
           | Inr es' \<Rightarrow> (fold (write_chunk name) chunks es', map_option RequestException err)))"

fun collect_links ::
  "element list \<Rightarrow> (string option \<rightharpoonup> string) \<Rightarrow> (string option \<rightharpoonup> string)" where
  "collect_links [] links = links"
| "collect_links (link # rest) links =
     (let fmt = el_get link ''format'';
          href = el_get link ''href''
      in case href of
           None \<Rightarrow> collect_links rest links
         | Some h \<Rightarrow>
             if h = [] then collect_links rest links
             else collect_links rest
                    (links(fmt \<mapsto> (if startswith h ''ftp://''
                                     then replace ''ftp://'' ''https://'' h else h))))"

definition download_direct :: "env \<Rightarrow> string \<Rightarrow> string \<Rightarrow> string \<Rightarrow> string \<Rightarrow> dstate \<Rightarrow> dstate" where
  "download_direct ev pmcid fmt ext href st =
     (let save_name = pmcid @ ''.'' @ ext;
          st1 = print (''Downloading '' @ upper fmt @ '' as '' @ save_name @ ''...'') st
      in case fetch_to_file (http_get ev href) save_name (entries st1) of
           (es, None) \<Rightarrow>
             (print (''Saved '' @ save_name) (st1\<lparr>entries := es\<rparr>))
               \<lparr>downloaded_something := True\<rparr>
         | (es, Some e) \<Rightarrow>
             print (''Failed to download '' @ href @ '': '' @ exn_str e) (st1\<lparr>entries := es\<rparr>))"

definition try_direct :: "env \<Rightarrow> string \<Rightarrow> (string option \<rightharpoonup> string) \<Rightarrow> dstate \<Rightarrow> dstate" where
  "try_direct ev pmcid links st =
     (if links (Some ''pdf'') \<noteq> None \<or> links (Some ''xml'') \<noteq> None then
        fold (\<lambda>(fmt, ext) st'.
                case links (Some fmt) of
                  None \<Rightarrow> st'
                | Some href \<Rightarrow> download_direct ev pmcid fmt ext href st')
             [(''pdf'', ''pdf''), (''xml'', ''nxml'')] st
      else st)"

text \<open>
  The body of the inner loop for one file name: \<open>Inl\<close> when \<^verbatim>\<open>os.rename\<close> raises.
\<close>

definition rename_file :: "string \<Rightarrow> string list \<Rightarrow> string \<Rightarrow> dstate \<Rightarrow> exn + dstate" where
  "rename_file pmcid root_path file st =
     (if endswith (lower file) ''.pdf'' then
        (if \<not> exists_top (entries st) (pmcid @ ''.pdf'') then
           (case os_rename (entries st) root_path file (pmcid @ ''.pdf'') of
              Inl e \<Rightarrow> Inl e
            | Inr es \<Rightarrow>
                Inr (print (''Renamed '' @ file @ '' to '' @ pmcid @ ''.pdf'')
                       (st\<lparr>entries := es\<rparr>)))
         else Inr st)
      else if endswith (lower file) ''.nxml'' \<or> endswith (lower file) ''.xml'' then
        (if \<not> exists_top (entries st) (pmcid @ ''.nxml'') then
           (case os_rename (entries st) root_path file (pmcid @ ''.nxml'') of
              Inl e \<Rightarrow> Inl e
            | Inr es \<Rightarrow>
                Inr (print (''Renamed '' @ file @ '' to '' @ pmcid @ ''.nxml'')
                       (st\<lparr>entries := es\<rparr>)))
         else Inr st)
      else Inr st)"

text \<open>
  The two nested loops.  An exception ends them; the state reached so far stays.  Every
  directory is listed when the walk reaches it.  The body only takes the current file out
  of the directory being visited and adds a name to the top directory, which was listed
  first, so the listings are those of the directory as it is when the walk starts, and
  the loops run over \<open>walk [] es\<close> for that \<open>es\<close>.
\<close>

fun rename_files :: "string \<Rightarrow> string list \<Rightarrow> string list \<Rightarrow> dstate \<Rightarrow> dstate \<times> exn option" where
  "rename_files pmcid root_path [] st = (st, None)"
| "rename_files pmcid root_path (file # files) st =
     (case rename_file pmcid root_path file st of
        Inl e \<Rightarrow> (st, Some e)
      | Inr st' \<Rightarrow> rename_files pmcid root_path files st')"

fun rename_walk ::
  "string \<Rightarrow> (string list \<times> string list) list \<Rightarrow> dstate \<Rightarrow> dstate \<times> exn option" where
  "rename_walk pmcid [] st = (st, None)"
| "rename_walk pmcid ((root_path, files) # rest) st =
     (case rename_files pmcid root_path files st of
        (st', Some e) \<Rightarrow> (st', Some e)
      | (st', None) \<Rightarrow> rename_walk pmcid rest st')"

text \<open>
  The inner \<^verbatim>\<open>try\<close> block, after the archive has been written: extraction, removal of
  the archive, the renaming.  A \<^verbatim>\<open>TarError\<close> is caught here; any other exception is
  handed to the outer handler.
\<close>

definition extract_and_rename ::
  "env \<Rightarrow> string \<Rightarrow> string \<Rightarrow> dstate \<Rightarrow> dstate \<times> exn option" where
  "extract_and_rename ev pmcid tgz_name st =
     (case untar ev tgz_name (entries st) of
        TarFailed msg es \<Rightarrow>
          (print (''Failed to extract tarball: '' @ msg) (st\<lparr>entries := es\<rparr>), None)
      | ExtractFailed e es \<Rightarrow> (st\<lparr>entries := es\<rparr>, Some e)
      | Extracted es \<Rightarrow>
          (case os_remove tgz_name es of
             Inl e \<Rightarrow> (st\<lparr>entries := es\<rparr>, Some e)
           | Inr es' \<Rightarrow>
               rename_walk pmcid (walk [] es')
                 (st\<lparr>entries := es', downloaded_something := True\<rparr>)))"

definition try_tgz :: "env \<Rightarrow> string \<Rightarrow> (string option \<rightharpoonup> string) \<Rightarrow> dstate \<Rightarrow> dstate" where
  "try_tgz ev pmcid links st =
     (if downloaded_something st then st
      else case links (Some ''tgz'') of
             None \<Rightarrow> st
           | Some href \<Rightarrow>
               (let tgz_name = basename href;
                    st1 = print (''Downloading OA Package (TGZ): '' @ tgz_name @ ''...'') st
                in case fetch_to_file (http_get ev href) tgz_name (entries st1) of
                     (es, Some e) \<Rightarrow>
                       print (''Failed to download package '' @ href @ '': '' @ exn_str e)
                         (st1\<lparr>entries := es\<rparr>)
                   | (es, None) \<Rightarrow>
                       (case extract_and_rename ev pmcid tgz_name
                               (print (''Extracting '' @ tgz_name @ ''...'')
                                  (st1\<lparr>entries := es\<rparr>)) of
                          (st2, None) \<Rightarrow> st2
                        | (st2, Some e) \<Rightarrow>
                            print (''Failed to download package '' @ href @ '': '' @ exn_str e)
                              st2)))"

text \<open>
  The function: the world afterwards and the exception it raises, \<open>None\<close> when it returns.
\<close>

definition download_article_files ::
  "env \<Rightarrow> string \<Rightarrow> string \<Rightarrow> world \<Rightarrow> world \<times> exn option" where
  "download_article_files ev pmcid save_dir w =
     (case oa_get ev pmcid of
        Failed msg \<Rightarrow>
          (w\<lparr>out := out w @ [''Error querying OA API for '' @ pmcid @ '': '' @ msg]\<rparr>, None)
      | Body None \<Rightarrow>
          (w\<lparr>out := out w @ [''Failed to parse OA XML for '' @ pmcid]\<rparr>, None)
      | Body (Some root) \<Rightarrow>
          (case find_desc ''error'' root of
             Some error \<Rightarrow>
               (w\<lparr>out := out w @ [''OA API Error for '' @ pmcid @ '': ''
                                   @ py_str (el_get error ''code'') @ '' - ''
                                   @ py_str (el_text error)]\<rparr>, None)
           | None \<Rightarrow>
               (let article_dir = path_join save_dir pmcid
                in case makedirs (fs w article_dir) of
                     Inl e \<Rightarrow> (w, Some e)
                   | Inr es \<Rightarrow>
                       (let links = collect_links (findall_desc ''link'' root) Map.empty;
                            st0 = \<lparr>entries = es, stdout = out w,
                                   downloaded_something = False\<rparr>;
                            st1 = try_direct ev pmcid links st0;
                            st2 = try_tgz ev pmcid links st1;
                            st3 = (if \<not> downloaded_something st2
                                   then print (''No accessible files found for '' @ pmcid
                                               @ '' (might not be Open Access).'') st2
                                   else st2)
                        in (\<lparr>fs = (fs w)(article_dir \<mapsto> Dir (entries st3)),
                             out = stdout st3\<rparr>, None)))))"

section \<open>Notions used to state the properties of the renaming\<close>










section \<open>The specification's wording\<close>


text \<open>
  The publication date as the specification words it: the texts of the \<^verbatim>\<open>year\<close>,
  \<^verbatim>\<open>month\<close> and \<^verbatim>\<open>day\<close> children of the first \<^verbatim>\<open>pub-date\<close> node, joined by hyphens,
  with a default for a missing child (empty for the year, \<^verbatim>\<open>01\<close> for month and day), and
  a placeholder when there is no such node.  The text of a child is taken as an f-string
  prints it.
\<close>

definition spec_date_part :: "string \<Rightarrow> string \<Rightarrow> element \<Rightarrow> string" where
  "spec_date_part t dflt n =
     (case find_child t n of None \<Rightarrow> dflt | Some c \<Rightarrow> py_str (el_text c))"

definition spec_pub_date :: "element \<Rightarrow> string" where
  "spec_pub_date a =
     (case find_desc ''pub-date'' a of
        None \<Rightarrow> ''Unknown Date''
      | Some n \<Rightarrow> spec_date_part ''year'' '''' n @ ''-'' @ spec_date_part ''month'' ''01'' n
                  @ ''-'' @ spec_date_part ''day'' ''01'' n)"

section \<open>Properties of \<^verbatim>\<open>get_pmc_metadata\<close>\<close>

lemma parse_article_no_meta:
  "find_desc ''article-meta'' a = None \<Longrightarrow> parse_article a = None"
  by (simp add: parse_article_def)

lemma parse_articles_skip:
  "parse_article a = None \<Longrightarrow>
   parse_articles (xs @ a # ys) acc = parse_articles (xs @ ys) acc"
  by (induction xs arbitrary: acc) (auto split: option.splits sum.splits)

text \<open>
  C9.  An article node without an \<^verbatim>\<open>article-meta\<close> descendant produces nothing: the loop
  body takes the \<^verbatim>\<open>continue\<close>, and the result for a list of article nodes that contains
  such a node, at any place, is the result for the list without it.
\<close>

theorem article_without_meta_omitted:
  assumes "find_desc ''article-meta'' a = None"
  shows "parse_article a = None \<and>
         parse_articles (xs @ a # ys) acc = parse_articles (xs @ ys) acc"
  using assms parse_article_no_meta parse_articles_skip by blast

theorem article_without_meta_omitted_witness:
  "parse_articles
     [Element ''article'' [] None [Element ''article-meta'' [] None [] None] None,
      Element ''article'' [] None [Element ''body'' [] None [] None] None] []
   = parse_articles
     [Element ''article'' [] None [Element ''article-meta'' [] None [] None] None] []
   \<and> length (projr (parse_articles
     [Element ''article'' [] None [Element ''article-meta'' [] None [] None] None,
      Element ''article'' [] None [Element ''body'' [] None [] None] None] [])) = 1"
proof -
  have h: "find_desc ''article-meta''
             (Element ''article'' [] None [Element ''body'' [] None [] None] None) = None"
    by code_simp
  have "parse_articles
     ([Element ''article'' [] None [Element ''article-meta'' [] None [] None] None] @
      Element ''article'' [] None [Element ''body'' [] None [] None] None # []) []
   = parse_articles
     ([Element ''article'' [] None [Element ''article-meta'' [] None [] None] None] @ []) []"
    using article_without_meta_omitted [OF h] by blast
  moreover have "length (projr (parse_articles
     [Element ''article'' [] None [Element ''article-meta'' [] None [] None] None] [])) = 1"
    by code_simp
  ultimately show ?thesis by simp
qed



text \<open>
  C3.  The publication date of a record is the date as the specification words it.
\<close>

theorem pub_date_format:
  assumes "parse_article a = Some (Inr r)"
  shows "art_pub_date r = spec_pub_date a"
  using assms
  by (auto simp: parse_article_def get_pub_date_def spec_pub_date_def spec_date_part_def
           split: option.splits sum.splits)

theorem pub_date_format_witness:
  "\<exists>r. parse_article
      (Element ''article'' [] None
        [Element ''article-meta'' [] None
          [Element ''pub-date'' [] None [Element ''year'' [] (Some ''2024'') [] None] None] None]
        None) = Some (Inr r) \<and> art_pub_date r = ''2024-01-01''"
proof -
  have p: "parse_article
      (Element ''article'' [] None
        [Element ''article-meta'' [] None
          [Element ''pub-date'' [] None [Element ''year'' [] (Some ''2024'') [] None] None] None]
        None) = Some (Inr \<lparr>art_pmcid = ''Unknown'', art_title = ''No Title'',
          art_journal = Some ''Unknown Journal'',
          art_pub_date = ''2024-01-01'', art_authors = [],
          art_pub_type = ''Unknown'',
          art_abstract = ''No Abstract'', art_mesh_terms = [],
          art_references = []\<rparr>)"
    by code_simp
  have s: "spec_pub_date
      (Element ''article'' [] None
        [Element ''article-meta'' [] None
          [Element ''pub-date'' [] None [Element ''year'' [] (Some ''2024'') [] None] None] None]
        None) = ''2024-01-01''"
    by code_simp
  show ?thesis using pub_date_format [OF p] p s by simp
qed

text \<open>
  C1.  The citation of a reference entry is chosen with \<^verbatim>\<open>or\<close> between the three
  lookups, and \<^verbatim>\<open>or\<close> tests the truth value of an element, which is false for an
  element without child elements.  A reference entry whose only citation node is a
  \<^verbatim>\<open>mixed-citation\<close> holding plain text is therefore dropped: the record's list of
  references is empty, although the entry has a citation node with the text
  \<^verbatim>\<open>Smith J. 2020.\<close>
\<close>

theorem childless_citation_skipped:
  "get_pmc_metadata [''1'']
     (Body (Some (Element ''pmc-articleset'' [] None
       [Element ''article'' [] None
         [Element ''front'' [] None [Element ''article-meta'' [] None [] None] None,
          Element ''back'' [] None
            [Element ''ref-list'' [] None
              [Element ''ref'' [(''id'', ''B1'')] None
                 [Element ''mixed-citation'' [] (Some ''Smith J. 2020.'') [] None] None]
              None] None] None] None)))
   = ([], Inr [\<lparr>art_pmcid = ''Unknown'', art_title = ''No Title'',
          art_journal = Some ''Unknown Journal'',
          art_pub_date = ''Unknown Date'', art_authors = [],
          art_pub_type = ''Unknown'',
          art_abstract = ''No Abstract'', art_mesh_terms = [],
          art_references = []\<rparr>])"
  by code_simp

section \<open>Properties of \<^verbatim>\<open>search_pmc\<close>\<close>

subsection \<open>The day count of a date\<close>






subsection \<open>The request\<close>



text \<open>
  C10.  When at least one of the two dates is given, the request carries both arguments
  as they are: the one that was not given stays \<^verbatim>\<open>None\<close> and no default is applied.
\<close>

theorem one_date_passed_through:
  assumes "mindate \<noteq> None \<or> maxdate \<noteq> None"
  shows "requests (search_pmc get now term max_results mindate maxdate) =
           [(BASE_URL @ ''esearch.fcgi'', search_params term max_results mindate maxdate)]
         \<and> p_mindate (search_params term max_results mindate maxdate) = mindate
         \<and> p_maxdate (search_params term max_results mindate maxdate) = maxdate"
  using assms
  by (auto simp add: search_pmc_def effective_dates_def Let_def search_params_def
           split: http.splits option.splits prod.splits)

theorem one_date_passed_through_witness:
  "map (\<lambda>r. (p_mindate (snd r), p_maxdate (snd r)))
     (requests (search_pmc (\<lambda>req. Failed ''offline'')
                  \<lparr>dt_year = 2024, dt_month = 3, dt_day = 10\<rparr>
                  ''cancer'' 5 (Some ''2024/01/01'') None))
     = [(Some ''2024/01/01'', None)]
   \<and> map (\<lambda>r. (p_mindate (snd r), p_maxdate (snd r)))
     (requests (search_pmc (\<lambda>req. Failed ''offline'')
                  \<lparr>dt_year = 2024, dt_month = 3, dt_day = 10\<rparr>
                  ''cancer'' 5 None (Some ''2024/01/31'')))
     = [(None, Some ''2024/01/31'')]"
  using one_date_passed_through [of "Some ''2024/01/01''" None "\<lambda>req. Failed ''offline''"
          "\<lparr>dt_year = 2024, dt_month = 3, dt_day = 10\<rparr>" "''cancer''" 5]
        one_date_passed_through [of None "Some ''2024/01/31''" "\<lambda>req. Failed ''offline''"
          "\<lparr>dt_year = 2024, dt_month = 3, dt_day = 10\<rparr>" "''cancer''" 5]
  by simp

text \<open>
  C8.  For a response that is a JSON object: without the key \<^verbatim>\<open>esearchresult\<close> the
  function returns the empty list; when \<^verbatim>\<open>esearchresult\<close> is an object with the key
  \<^verbatim>\<open>idlist\<close> it returns the value of \<^verbatim>\<open>idlist\<close> as it is.
\<close>

theorem idlist_verbatim_or_empty:
  assumes "effective_dates now mindate maxdate = Inr (mi, ma)"
      and "get (BASE_URL @ ''esearch.fcgi'', search_params term max_results mi ma)
             = Body (Some (JDict d))"
  shows "(map_of d ''esearchresult'' = None \<longrightarrow>
            returned (search_pmc get now term max_results mindate maxdate) = Inr (JList []))
         \<and> (\<forall>r ids. map_of d ''esearchresult'' = Some (JDict r) \<and> map_of r ''idlist'' = Some ids
               \<longrightarrow> returned (search_pmc get now term max_results mindate maxdate) = Inr ids)"
  using assms
  by (auto simp add: search_pmc_def extract_ids_def Let_def)

theorem idlist_verbatim_or_empty_witness:
  "returned (search_pmc
      (\<lambda>req. Body (Some (JDict [(''esearchresult'',
                 JDict [(''idlist'', JList [JStr ''123'', JStr ''456''])])])))
      \<lparr>dt_year = 2024, dt_month = 3, dt_day = 10\<rparr>
      ''cancer'' 5 (Some ''2024/01/01'') (Some ''2024/01/31''))
     = Inr (JList [JStr ''123'', JStr ''456''])
   \<and> returned (search_pmc
      (\<lambda>req. Body (Some (JDict [(''error'', JStr ''API rate limit exceeded'')])))
      \<lparr>dt_year = 2024, dt_month = 3, dt_day = 10\<rparr>
      ''cancer'' 5 (Some ''2024/01/01'') (Some ''2024/01/31''))
     = Inr (JList [])"
proof -
  have e: "effective_dates \<lparr>dt_year = 2024, dt_month = 3, dt_day = 10\<rparr>
             (Some ''2024/01/01'') (Some ''2024/01/31'')
             = Inr (Some ''2024/01/01'', Some ''2024/01/31'')"
    by (simp add: effective_dates_def)
  show ?thesis
    using idlist_verbatim_or_empty [OF e,
            of "\<lambda>req. Body (Some (JDict [(''esearchresult'',
                 JDict [(''idlist'', JList [JStr ''123'', JStr ''456''])])]))"
               "''cancer''" 5
               "[(''esearchresult'', JDict [(''idlist'', JList [JStr ''123'', JStr ''456''])])]"]
          idlist_verbatim_or_empty [OF e,
            of "\<lambda>req. Body (Some (JDict [(''error'', JStr ''API rate limit exceeded'')]))"
               "''cancer''" 5 "[(''error'', JStr ''API rate limit exceeded'')]"]
    by simp
qed

section \<open>The early returns of \<^verbatim>\<open>download_article_files\<close>\<close>

text \<open>
  C5.  When the open-access response has an \<^verbatim>\<open>error\<close> node, the function returns
  without an exception, the file system is unchanged (no file is written, nor is the
  directory created), and one line is printed, with the code and the message of the node.
\<close>

theorem oa_error_logged_no_files:
  assumes "oa_get ev pmcid = Body (Some root)"
      and "find_desc ''error'' root = Some error"
  shows "snd (download_article_files ev pmcid save_dir w) = None
         \<and> fs (fst (download_article_files ev pmcid save_dir w)) = fs w
         \<and> out (fst (download_article_files ev pmcid save_dir w)) =
             out w @ [''OA API Error for '' @ pmcid @ '': '' @ py_str (el_get error ''code'')
                      @ '' - '' @ py_str (el_text error)]"
  using assms by (simp add: download_article_files_def)

text \<open>
  C7.  When the request to the open-access service fails, the function returns without an
  exception, the file system is unchanged, and one line is printed, with the message of
  the failure.
\<close>

theorem oa_transport_failure_logged:
  assumes "oa_get ev pmcid = Failed msg"
  shows "snd (download_article_files ev pmcid save_dir w) = None
         \<and> fs (fst (download_article_files ev pmcid save_dir w)) = fs w
         \<and> out (fst (download_article_files ev pmcid save_dir w)) =
             out w @ [''Error querying OA API for '' @ pmcid @ '': '' @ msg]"
  using assms by (simp add: download_article_files_def)

theorem oa_transport_failure_logged_witness:
  "snd (download_article_files
         \<lparr>oa_get = (\<lambda>i. Failed ''503 Server Error''), http_get = (\<lambda>h. GetFailed ''''),
          untar = (\<lambda>n es. Extracted es)\<rparr> ''PMC1'' ''downloads'' \<lparr>fs = Map.empty, out = []\<rparr>)
     = None
   \<and> out (fst (download_article_files
         \<lparr>oa_get = (\<lambda>i. Failed ''503 Server Error''), http_get = (\<lambda>h. GetFailed ''''),
          untar = (\<lambda>n es. Extracted es)\<rparr> ''PMC1'' ''downloads'' \<lparr>fs = Map.empty, out = []\<rparr>))
     = [''Error querying OA API for PMC1: 503 Server Error'']
   \<and> fs (fst (download_article_files
         \<lparr>oa_get = (\<lambda>i. Failed ''503 Server Error''), http_get = (\<lambda>h. GetFailed ''''),
          untar = (\<lambda>n es. Extracted es)\<rparr> ''PMC1'' ''downloads'' \<lparr>fs = Map.empty, out = []\<rparr>))
       ''downloads/PMC1'' = None"
  using oa_transport_failure_logged
          [of "\<lparr>oa_get = (\<lambda>i. Failed ''503 Server Error''), http_get = (\<lambda>h. GetFailed ''''),
          untar = (\<lambda>n es. Extracted es)\<rparr>" "''PMC1''" "''503 Server Error''" "''downloads''"
             "\<lparr>fs = Map.empty, out = []\<rparr>"]
  by simp

theorem oa_error_logged_no_files_witness:
  "snd (download_article_files
         \<lparr>oa_get = (\<lambda>i. Body (Some (Element ''OA'' [] None
              [Element ''error'' [(''code'', ''idIsNotOpenAccess'')]
                 (Some ''identifier is not Open Access'') [] None] None))),
          http_get = (\<lambda>h. Stream [''x''] None),
          untar = (\<lambda>n es. Extracted es)\<rparr> ''PMC1'' ''downloads'' \<lparr>fs = Map.empty, out = []\<rparr>)
     = None
   \<and> out (fst (download_article_files
         \<lparr>oa_get = (\<lambda>i. Body (Some (Element ''OA'' [] None
              [Element ''error'' [(''code'', ''idIsNotOpenAccess'')]
                 (Some ''identifier is not Open Access'') [] None] None))),
          http_get = (\<lambda>h. Stream [''x''] None),
          untar = (\<lambda>n es. Extracted es)\<rparr> ''PMC1'' ''downloads'' \<lparr>fs = Map.empty, out = []\<rparr>))
     = [''OA API Error for PMC1: idIsNotOpenAccess - identifier is not Open Access'']
   \<and> fs (fst (download_article_files
         \<lparr>oa_get = (\<lambda>i. Body (Some (Element ''OA'' [] None
              [Element ''error'' [(''code'', ''idIsNotOpenAccess'')]
                 (Some ''identifier is not Open Access'') [] None] None))),
          http_get = (\<lambda>h. Stream [''x''] None),
          untar = (\<lambda>n es. Extracted es)\<rparr> ''PMC1'' ''downloads'' \<lparr>fs = Map.empty, out = []\<rparr>))
       ''downloads/PMC1'' = None"
proof -
  have f: "find_desc ''error'' (Element ''OA'' [] None
              [Element ''error'' [(''code'', ''idIsNotOpenAccess'')]
                 (Some ''identifier is not Open Access'') [] None] None)
           = Some (Element ''error'' [(''code'', ''idIsNotOpenAccess'')]
                 (Some ''identifier is not Open Access'') [] None)"
    by code_simp
  show ?thesis
    using oa_error_logged_no_files [OF _ f,
            of "\<lparr>oa_get = (\<lambda>i. Body (Some (Element ''OA'' [] None
              [Element ''error'' [(''code'', ''idIsNotOpenAccess'')]
                 (Some ''identifier is not Open Access'') [] None] None))),
          http_get = (\<lambda>h. Stream [''x''] None),
          untar = (\<lambda>n es. Extracted es)\<rparr>" "''PMC1''" "''downloads''"
               "\<lparr>fs = Map.empty, out = []\<rparr>"]
    by (simp add: py_str_def el_get_def)
qed

section \<open>The renaming of the extracted files\<close>

subsection \<open>What is at a path after a renaming\<close>








subsection \<open>The loop on what is at each path\<close>















subsection \<open>The files met by the walk\<close>

















subsection \<open>The archive path\<close>







end
